theory Spec2Isabelle
  imports Complex_Main "HOL-Library.Multiset"
begin

section \<open>Python values and failures\<close>

text \<open>
  The partial-read engine of aiocogeo (\<^verbatim>\<open>partial_reads.py\<close>, \<^verbatim>\<open>filesystems.py\<close>) is
  embedded function by function. Python exceptions are values of \<open>py_error\<close>; a function
  that can raise returns \<open>py_error + 'a\<close>. Python floats are idealised as \<open>real\<close>, Python
  integers are \<open>int\<close>, \<^verbatim>\<open>bytes\<close> are lists of naturals.
\<close>

datatype py_error =
    IndexError
  | ValueError
  | ZeroDivisionError
  | AssertionError
  | AttributeError
  | TransformNotInvertibleError
  | OSError
  | FileNotFoundError
  | DecodeError nat

type_synonym bytes = "nat list"

type_synonym bounds = "real \<times> real \<times> real \<times> real"

text \<open>\<^verbatim>\<open>xs[i]\<close>: a negative index counts from the end, an index out of range raises.\<close>

definition py_index :: "'a list \<Rightarrow> int \<Rightarrow> py_error + 'a" where
  "py_index xs i =
     (let n = int (length xs); j = (if i < 0 then i + n else i)
      in if 0 \<le> j \<and> j < n then Inr (xs ! nat j) else Inl IndexError)"

text \<open>\<^verbatim>\<open>min(xs)\<close> and \<^verbatim>\<open>max(xs)\<close> raise \<^verbatim>\<open>ValueError\<close> on an empty sequence.\<close>

definition py_min :: "int list \<Rightarrow> py_error + int" where
  "py_min xs = (case xs of [] \<Rightarrow> Inl ValueError | y # ys \<Rightarrow> Inr (fold min ys y))"

definition py_max :: "int list \<Rightarrow> py_error + int" where
  "py_max xs = (case xs of [] \<Rightarrow> Inl ValueError | y # ys \<Rightarrow> Inr (fold max ys y))"

text \<open>
  The bounds of the slice \<^verbatim>\<open>xs[start:stop]\<close> on a sequence of length \<open>n\<close>: a negative bound
  counts from the end, both are clipped to \<open>0..n\<close>, and a stop before the start selects
  nothing.
\<close>

definition slice_bounds :: "nat \<Rightarrow> int \<Rightarrow> int \<Rightarrow> nat \<times> nat" where
  "slice_bounds n start stop =
     (let norm = (\<lambda>i. if i < 0 then max (i + int n) 0 else min i (int n));
          s = nat (norm start); e = nat (norm stop)
      in (s, max s e))"

definition py_slice :: "'a list \<Rightarrow> int \<Rightarrow> int \<Rightarrow> 'a list" where
  "py_slice xs start stop =
     (case slice_bounds (length xs) start stop of (s, e) \<Rightarrow> take (e - s) (drop s xs))"

text \<open>\<^verbatim>\<open>round(x)\<close> on a float: to the nearest integer, a tie to the even one.\<close>

definition py_round :: "real \<Rightarrow> int" where
  "py_round x =
     (let f = \<lfloor>x\<rfloor>
      in if x - of_int f < 1 / 2 then f
         else if 1 / 2 < x - of_int f then f + 1
         else if even f then f else f + 1)"

section \<open>The affine library, as far as the engine uses it\<close>

text \<open>
  \<^verbatim>\<open>affine.Affine(a, b, c, d, e, f)\<close> maps \<open>(x, y)\<close> to \<open>(a x + b y + c, d x + e y + f)\<close>.
\<close>

record affine =
  aff_a :: real
  aff_b :: real
  aff_c :: real
  aff_d :: real
  aff_e :: real
  aff_f :: real

definition Affine :: "real \<Rightarrow> real \<Rightarrow> real \<Rightarrow> real \<Rightarrow> real \<Rightarrow> real \<Rightarrow> affine" where
  "Affine a b c d e f = \<lparr>aff_a = a, aff_b = b, aff_c = c, aff_d = d, aff_e = e, aff_f = f\<rparr>"

definition affine_translation :: "real \<Rightarrow> real \<Rightarrow> affine" where
  "affine_translation xoff yoff = Affine 1 0 xoff 0 1 yoff"

definition affine_scale :: "real \<Rightarrow> real \<Rightarrow> affine" where
  "affine_scale sx sy = Affine sx 0 0 0 sy 0"

definition affine_mul :: "affine \<Rightarrow> affine \<Rightarrow> affine" where
  "affine_mul s t =
     Affine (aff_a s * aff_a t + aff_b s * aff_d t)
            (aff_a s * aff_b t + aff_b s * aff_e t)
            (aff_a s * aff_c t + aff_b s * aff_f t + aff_c s)
            (aff_d s * aff_a t + aff_e s * aff_d t)
            (aff_d s * aff_b t + aff_e s * aff_e t)
            (aff_d s * aff_c t + aff_e s * aff_f t + aff_f s)"

definition affine_apply :: "affine \<Rightarrow> real \<times> real \<Rightarrow> real \<times> real" where
  "affine_apply s v =
     (case v of (vx, vy) \<Rightarrow>
        (vx * aff_a s + vy * aff_b s + aff_c s, vx * aff_d s + vy * aff_e s + aff_f s))"

definition affine_determinant :: "affine \<Rightarrow> real" where
  "affine_determinant s = aff_a s * aff_e s - aff_b s * aff_d s"

text \<open>\<^verbatim>\<open>~s\<close> raises when the transform is degenerate.\<close>

definition affine_invert :: "affine \<Rightarrow> py_error + affine" where
  "affine_invert s =
     (if affine_determinant s = 0 then Inl TransformNotInvertibleError
      else
        let idet = 1 / affine_determinant s;
            ra = aff_e s * idet;
            rb = - aff_b s * idet;
            rd = - aff_d s * idet;
            re = aff_a s * idet
        in Inr (Affine ra rb (- aff_c s * ra - aff_f s * rb)
                       rd re (- aff_c s * rd - aff_f s * re)))"

section \<open>Bounds intersection\<close>

text \<open>\<^verbatim>\<open>PartialReadBase._intersect_bounds\<close>; bounds are (left, bottom, right, top).\<close>

definition intersect_bounds :: "bounds \<Rightarrow> bounds \<Rightarrow> bool" where
  "intersect_bounds read_bounds cog_bounds =
     (case read_bounds of (r0, r1, r2, r3) \<Rightarrow>
      case cog_bounds of (c0, c1, c2, c3) \<Rightarrow>
        c0 < r2 \<and> c2 > r0 \<and> c3 > r1 \<and> c1 < r3)"

section \<open>Arrays\<close>

text \<open>
  A numpy array of three dimensions (bands, rows, columns) is a nested list; its shape is
  read off the nested lengths. \<open>np_mask\<close> is \<open>None\<close> for a plain \<^verbatim>\<open>ndarray\<close> and holds
  the mask of a \<^verbatim>\<open>numpy.ma.masked_array\<close> otherwise (\<^verbatim>\<open>nomask\<close> is the mask that is
  \<open>False\<close> everywhere).
\<close>

record 'a nparray =
  np_data :: "'a list list list"
  np_mask :: "bool list list list option"

definition shape3 :: "'a list list list \<Rightarrow> nat \<times> nat \<times> nat" where
  "shape3 a =
     (length a,
      (case a of [] \<Rightarrow> 0 | band # _ \<Rightarrow> length band),
      (case a of [] \<Rightarrow> 0 | band # _ \<Rightarrow> (case band of [] \<Rightarrow> 0 | row # _ \<Rightarrow> length row)))"

definition map_index :: "(nat \<Rightarrow> 'a \<Rightarrow> 'b) \<Rightarrow> 'a list \<Rightarrow> 'b list" where
  "map_index f xs = map (\<lambda>(i, x). f i x) (enumerate 0 xs)"

text \<open>numpy broadcasting along one dimension: the lengths agree, or a length of one is stretched.\<close>

definition broadcast_dim :: "nat \<Rightarrow> 'a list \<Rightarrow> 'a list option" where
  "broadcast_dim n xs =
     (if length xs = n then Some xs
      else if length xs = 1 then Some (replicate n (hd xs))
      else None)"

definition broadcast_to3 :: "'a list list list \<Rightarrow> nat \<times> nat \<times> nat \<Rightarrow> 'a list list list option" where
  "broadcast_to3 a shp =
     (case shp of (nb, nr, nc) \<Rightarrow>
        Option.bind (broadcast_dim nb a) (\<lambda>bs.
          those (map (\<lambda>band. Option.bind (broadcast_dim nr band) (\<lambda>rows.
                        those (map (broadcast_dim nc) rows))) bs)))"

text \<open>\<^verbatim>\<open>np.broadcast_to\<close> of a two-dimensional array to a three-dimensional shape.\<close>

definition broadcast_to2 :: "'a list list \<Rightarrow> nat \<times> nat \<times> nat \<Rightarrow> 'a list list list option" where
  "broadcast_to2 m shp =
     (case shp of (nb, nr, nc) \<Rightarrow>
        map_option (replicate nb)
          (Option.bind (broadcast_dim nr m) (\<lambda>rows. those (map (broadcast_dim nc) rows))))"

text \<open>
  The slice assignment \<^verbatim>\<open>dst[:, r0:r1, c0:c1] = src\<close>. The block is the rows and columns
  that the two slices select in an array of the shape of \<open>dst\<close>; the value is broadcast to
  the shape of the block, and numpy raises \<^verbatim>\<open>ValueError\<close> when it cannot be; then every
  position of the block takes the entry of the broadcast value.
\<close>

definition block_bounds ::
  "nat \<times> nat \<times> nat \<Rightarrow> int \<Rightarrow> int \<Rightarrow> int \<Rightarrow> int \<Rightarrow> (nat \<times> nat) \<times> (nat \<times> nat)" where
  "block_bounds shp r0 r1 c0 c1 =
     (case shp of (nb, nr, nc) \<Rightarrow> (slice_bounds nr r0 r1, slice_bounds nc c0 c1))"

definition block_shape :: "nat \<times> nat \<times> nat \<Rightarrow> (nat \<times> nat) \<times> (nat \<times> nat) \<Rightarrow> nat \<times> nat \<times> nat" where
  "block_shape shp blk =
     (case blk of ((rs, re), (cs, ce)) \<Rightarrow> (fst shp, re - rs, ce - cs))"

definition paint_block ::
  "'a list list list \<Rightarrow> 'a list list list \<Rightarrow> (nat \<times> nat) \<times> (nat \<times> nat) \<Rightarrow> 'a list list list" where
  "paint_block dst v blk =
     (case blk of ((rs, re), (cs, ce)) \<Rightarrow>
        map_index (\<lambda>b. map_index (\<lambda>r. map_index (\<lambda>c x.
          if rs \<le> r \<and> r < re \<and> cs \<le> c \<and> c < ce
          then v ! b ! (r - rs) ! (c - cs) else x))) dst)"

definition assign_block ::
  "'a list list list \<Rightarrow> 'a list list list \<Rightarrow> int \<Rightarrow> int \<Rightarrow> int \<Rightarrow> int
     \<Rightarrow> py_error + 'a list list list" where
  "assign_block dst src r0 r1 c0 c1 =
     (let blk = block_bounds (shape3 dst) r0 r1 c0 c1
      in case broadcast_to3 src (block_shape (shape3 dst) blk) of
           None \<Rightarrow> Inl ValueError
         | Some v \<Rightarrow> Inr (paint_block dst v blk))"

text \<open>\<^verbatim>\<open>np.ma.is_masked\<close>: some entry of the mask is set.\<close>

definition ma_is_masked :: "'a nparray \<Rightarrow> bool" where
  "ma_is_masked arr =
     (case np_mask arr of None \<Rightarrow> False | Some m \<Rightarrow> list_ex (list_ex (list_ex id)) m)"

text \<open>\<^verbatim>\<open>np.ma.getmaskarray\<close>: the mask, or a mask of \<open>False\<close> of the shape of the data.\<close>

definition ma_getmaskarray :: "'a nparray \<Rightarrow> bool list list list" where
  "ma_getmaskarray arr =
     (case np_mask arr of
        None \<Rightarrow> map (map (map (\<lambda>_. False))) (np_data arr)
      | Some m \<Rightarrow> m)"

text \<open>
  \<^verbatim>\<open>fused_arr[:, r0:r1, c0:c1] = arr\<close>. On a plain array the data of the value is stored;
  on a masked array the data and, in the same block, the mask of the value.
\<close>

definition setitem_block ::
  "'a nparray \<Rightarrow> 'a nparray \<Rightarrow> int \<Rightarrow> int \<Rightarrow> int \<Rightarrow> int \<Rightarrow> py_error + 'a nparray" where
  "setitem_block fused_arr arr r0 r1 c0 c1 =
     (case assign_block (np_data fused_arr) (np_data arr) r0 r1 c0 c1 of
        Inl err \<Rightarrow> Inl err
      | Inr d \<Rightarrow>
          (case np_mask fused_arr of
             None \<Rightarrow> Inr (fused_arr\<lparr>np_data := d\<rparr>)
           | Some fm \<Rightarrow>
               (case assign_block fm (ma_getmaskarray arr) r0 r1 c0 c1 of
                  Inl err \<Rightarrow> Inl err
                | Inr m \<Rightarrow> Inr (fused_arr\<lparr>np_data := d, np_mask := Some m\<rparr>))))"

text \<open>
  \<^verbatim>\<open>fused_arr.mask[:, r0:r1, c0:c1] = arr.mask\<close>; a plain array has no attribute
  \<^verbatim>\<open>mask\<close>.
\<close>

definition setmask_block ::
  "'a nparray \<Rightarrow> 'a nparray \<Rightarrow> int \<Rightarrow> int \<Rightarrow> int \<Rightarrow> int \<Rightarrow> py_error + 'a nparray" where
  "setmask_block fused_arr arr r0 r1 c0 c1 =
     (case np_mask fused_arr of
        None \<Rightarrow> Inl AttributeError
      | Some fm \<Rightarrow>
          (case np_mask arr of
             None \<Rightarrow> Inl AttributeError
           | Some am \<Rightarrow>
               (case assign_block fm am r0 r1 c0 c1 of
                  Inl err \<Rightarrow> Inl err
                | Inr m \<Rightarrow> Inr (fused_arr\<lparr>np_mask := Some m\<rparr>))))"

section \<open>The reader\<close>

text \<open>
  An image file directory, as far as the engine reads it. \<open>decompress\<close> and
  \<open>decompress_mask\<close> are the directory's decoders.
\<close>

record 'a ifd =
  TileOffsets :: "int list"
  TileByteCounts :: "int list"
  tile_count :: "int \<times> int"
  decompress :: "bytes \<Rightarrow> py_error + 'a list list list"
  decompress_mask :: "bytes \<Rightarrow> py_error + bool list list"

text \<open>
  \<open>self\<close>: the abstract members of \<^verbatim>\<open>PartialReadBase\<close> and the members that
  \<^verbatim>\<open>PartialReadInterface\<close> reads. \<open>range_request\<close> is \<^verbatim>\<open>self._file_reader.range_request\<close>.
\<close>

record 'a partial_read =
  is_masked :: bool
  nodata :: "int option"
  overviews :: "int list"
  geotransform :: "int \<Rightarrow> affine"
  get_tile :: "int \<Rightarrow> int \<Rightarrow> int \<Rightarrow> py_error + 'a nparray"
  ifds :: "'a ifd list"
  mask_ifds :: "'a ifd list"
  range_request :: "int \<Rightarrow> int \<Rightarrow> py_error + bytes"

definition bind_err :: "py_error + 'a \<Rightarrow> ('a \<Rightarrow> py_error + 'b) \<Rightarrow> py_error + 'b" where
  "bind_err m f = (case m of Inl err \<Rightarrow> Inl err | Inr x \<Rightarrow> f x)"

text \<open>\<^verbatim>\<open>PartialReadBase._add_mask\<close>.\<close>

definition add_mask :: "'a partial_read \<Rightarrow> bool" where
  "add_mask self =
     (if is_masked self then True
      else if nodata self \<noteq> None then True
      else False)"

section \<open>Overview selection\<close>

text \<open>
  The configured strategy: \<^verbatim>\<open>int({"AUTO": 50, "LOWER": 100, "UPPER": 0}.get(s, s))\<close>.
  \<open>Percent n\<close> stands for a setting that \<^verbatim>\<open>int\<close> reads as \<open>n\<close>.
\<close>

datatype zoom_level_strategy = AUTO | LOWER | UPPER | Percent int

fun strategy_percentage :: "zoom_level_strategy \<Rightarrow> int" where
  "strategy_percentage AUTO = 50"
| "strategy_percentage LOWER = 100"
| "strategy_percentage UPPER = 0"
| "strategy_percentage (Percent n) = n"

definition available_resolutions :: "real \<Rightarrow> int list \<Rightarrow> real list" where
  "available_resolutions src_res ovs = src_res # map (\<lambda>decim. src_res * of_int decim) ovs"

text \<open>
  The loop of \<^verbatim>\<open>_get_overview_level\<close> (lines 145 to 152) over the indices it is given,
  \<^verbatim>\<open>reversed(range(1, len(available_resolutions)))\<close>, and the \<^verbatim>\<open>return 0\<close> after it.
\<close>

fun overview_loop :: "real list \<Rightarrow> int \<Rightarrow> real \<Rightarrow> nat list \<Rightarrow> nat" where
  "overview_loop res percentage target_res [] = 0"
| "overview_loop res percentage target_res (i # rest) =
     (let res_current = res ! i;
          res_higher = res ! (i - 1);
          threshold = res_current - (res_current - res_higher) * (of_int percentage / 100)
      in if target_res > threshold \<or> target_res = res_current then i
         else overview_loop res percentage target_res rest)"

definition select_level :: "real list \<Rightarrow> int \<Rightarrow> real \<Rightarrow> nat" where
  "select_level res percentage target_res =
     overview_loop res percentage target_res (rev [1..<length res])"

text \<open>
  \<^verbatim>\<open>_get_overview_level\<close>. The two divisions raise on a zero width or height, the
  assertion on a percentage outside 0..100.
\<close>

definition get_overview_level ::
  "'a partial_read \<Rightarrow> zoom_level_strategy \<Rightarrow> bounds \<Rightarrow> int \<Rightarrow> int \<Rightarrow> py_error + nat" where
  "get_overview_level self strategy bnds w h =
     (case bnds of (b0, b1, b2, b3) \<Rightarrow>
        let src_res = aff_a (geotransform self 0) in
        if w = 0 \<or> h = 0 then Inl ZeroDivisionError
        else
          let target_gt = affine_mul (affine_translation b0 b3)
                            (affine_scale ((b2 - b0) / of_int w) ((b1 - b3) / of_int h));
              target_res = aff_a target_gt;
              res = available_resolutions src_res (overviews self);
              percentage = strategy_percentage strategy
          in if \<not> (0 \<le> percentage \<and> percentage \<le> 100) then Inl AssertionError
             else Inr (select_level res percentage target_res))"

text \<open>
  The specification's words for one level: the threshold between level \<open>i\<close> and the finer
  level \<open>i - 1\<close>, and when level \<open>i\<close> qualifies for a target resolution.
\<close>

definition level_threshold :: "real list \<Rightarrow> int \<Rightarrow> nat \<Rightarrow> real" where
  "level_threshold res p i = res ! i - (res ! i - res ! (i - 1)) * (of_int p / 100)"

definition level_qualifies :: "real list \<Rightarrow> int \<Rightarrow> real \<Rightarrow> nat \<Rightarrow> bool" where
  "level_qualifies res p t i = (t > level_threshold res p i \<or> t = res ! i)"

section \<open>Tile geometry\<close>

record 'd tile_metadata =
  tlx :: int
  tly :: int
  width :: int
  height :: int
  tile_width :: int
  tile_height :: int
  xmin :: int
  ymin :: int
  xmax :: int
  ymax :: int
  bands :: int
  dtype :: 'd
  ovr_level :: int
  x_coord :: "real list"
  y_coord :: "real list"

text \<open>
  \<^verbatim>\<open>_calculate_image_tiles\<close>. The divisions by the tile size raise on zero, the two
  inversions on a degenerate geotransform.
\<close>

definition calculate_image_tiles ::
  "'a partial_read \<Rightarrow> bounds \<Rightarrow> int \<Rightarrow> int \<Rightarrow> int \<Rightarrow> int \<Rightarrow> 'd
     \<Rightarrow> py_error + 'd tile_metadata" where
  "calculate_image_tiles self bnds tw th band_count lvl dt =
     (case bnds of (b0, b1, b2, b3) \<Rightarrow>
      let gt = geotransform self lvl in
      case affine_invert gt of Inl err \<Rightarrow> Inl err | Inr invgt \<Rightarrow>
      case affine_apply invgt (b0, b3) of (ptlx, ptly) \<Rightarrow>
      case affine_apply invgt (b2, b1) of (brx, bry) \<Rightarrow>
      if tw = 0 \<or> th = 0 then Inl ZeroDivisionError
      else
        let x_min = \<lfloor>(ptlx + 1 / 1000000) / of_int tw\<rfloor>;
            x_max = \<lfloor>(brx + 1 / 1000000) / of_int tw\<rfloor>;
            y_max = \<lfloor>(bry + 1 / 1000000) / of_int th\<rfloor>;
            y_min = \<lfloor>(ptly + 1 / 1000000) / of_int th\<rfloor>;
            tile_bounds = (x_min * tw, y_min * th, (x_max + 1) * tw, (y_max + 1) * th)
        in case affine_apply gt (of_int (fst tile_bounds), of_int (fst (snd tile_bounds)))
           of (ftlx, ftly) \<Rightarrow>
           let fused_gt = Affine (aff_a gt) (aff_b gt) ftlx (aff_d gt) (aff_e gt) ftly in
           case affine_invert fused_gt of Inl err \<Rightarrow> Inl err | Inr inv_fused_gt \<Rightarrow>
           case affine_apply inv_fused_gt (b0, b3) of (ox, oy) \<Rightarrow>
           let xorigin = py_round ox;
               yorigin = py_round oy;
               wd = py_round (brx - ptlx);
               ht = py_round (bry - ptly)
           in Inr \<lparr>tlx = xorigin, tly = yorigin, width = wd, height = ht,
                   tile_width = tw, tile_height = th,
                   xmin = x_min, ymin = y_min, xmax = x_max, ymax = y_max,
                   bands = band_count, dtype = dt, ovr_level = lvl,
                   x_coord = map (\<lambda>q. ftlx + (of_int xorigin + 1 / 2 + of_int q) * aff_a gt)
                                 [0..wd - 1],
                   y_coord = map (\<lambda>q. ftly + (of_int yorigin + 1 / 2 + of_int q) * aff_e gt)
                                 [0..ht - 1]\<rparr>)"

section \<open>The mosaic buffer\<close>

text \<open>\<^verbatim>\<open>np.zeros(shape)\<close>: an array of float zeros; a negative dimension raises.\<close>

definition np_zeros :: "int \<times> int \<times> int \<Rightarrow> py_error + real list list list" where
  "np_zeros shp =
     (case shp of (nb, nr, nc) \<Rightarrow>
        if nb < 0 \<or> nr < 0 \<or> nc < 0 then Inl ValueError
        else Inr (replicate (nat nb) (replicate (nat nr) (replicate (nat nc) 0))))"

text \<open>\<^verbatim>\<open>np.ma.masked_array(a)\<close> with no mask given.\<close>

definition ma_masked_array :: "'a nparray \<Rightarrow> 'a nparray" where
  "ma_masked_array arr = arr\<lparr>np_mask := Some (ma_getmaskarray arr)\<rparr>"

text \<open>
  \<^verbatim>\<open>_init_array\<close>. \<open>astype dt\<close> is numpy's cast of a float to the element type \<open>dt\<close>.
\<close>

definition init_array ::
  "('d \<Rightarrow> real \<Rightarrow> 'a) \<Rightarrow> 'a partial_read \<Rightarrow> 'd tile_metadata \<Rightarrow> py_error + 'a nparray" where
  "init_array astype self img_tiles =
     bind_err (np_zeros (bands img_tiles,
                         (ymax img_tiles + 1 - ymin img_tiles) * tile_height img_tiles,
                         (xmax img_tiles + 1 - xmin img_tiles) * tile_width img_tiles))
       (\<lambda>zeros.
          let fused = \<lparr>np_data = map (map (map (astype (dtype img_tiles)))) zeros,
                       np_mask = None\<rparr>
          in Inr (if add_mask self then ma_masked_array fused else fused))"

text \<open>\<^verbatim>\<open>_stitch_image_tile\<close>; \<open>idx\<close> and \<open>idy\<close> come from \<^verbatim>\<open>enumerate\<close>.\<close>

definition stitch_image_tile ::
  "'a nparray \<Rightarrow> 'a nparray \<Rightarrow> nat \<Rightarrow> nat \<Rightarrow> int \<Rightarrow> int \<Rightarrow> py_error + 'a nparray" where
  "stitch_image_tile arr fused_arr idx idy tw th =
     (let r0 = int idy * th; r1 = (int idy + 1) * th;
          c0 = int idx * tw; c1 = (int idx + 1) * tw
      in bind_err (setitem_block fused_arr arr r0 r1 c0 c1)
           (\<lambda>fused1. if ma_is_masked arr then setmask_block fused1 arr r0 r1 c0 c1
                      else Inr fused1))"

text \<open>
  Tasks that share the array. The embedding runs them one after the other, in the order of
  their creation, each on the array the one before left; the first failure is the outcome,
  as the first exception is of \<^verbatim>\<open>asyncio.gather\<close>. The same function runs the body of a
  \<^verbatim>\<open>for\<close> loop over a list.
\<close>

fun run_all :: "('s \<Rightarrow> py_error + 's) list \<Rightarrow> 's \<Rightarrow> py_error + 's" where
  "run_all [] s = Inr s"
| "run_all (t # ts) s = bind_err (t s) (run_all ts)"

text \<open>\<^verbatim>\<open>asyncio.gather\<close> of requests that return a value each.\<close>

fun gather_results :: "(py_error + 'a) list \<Rightarrow> py_error + 'a list" where
  "gather_results [] = Inr []"
| "gather_results (r # rs) =
     bind_err r (\<lambda>x. bind_err (gather_results rs) (\<lambda>xs. Inr (x # xs)))"

text \<open>\<^verbatim>\<open>_get_and_stitch_tile\<close>.\<close>

definition get_and_stitch_tile ::
  "'a partial_read \<Rightarrow> int \<Rightarrow> int \<Rightarrow> nat \<Rightarrow> nat \<Rightarrow> 'd tile_metadata \<Rightarrow> 'a nparray
     \<Rightarrow> py_error + 'a nparray" where
  "get_and_stitch_tile self xtile ytile idx idy img_tiles fused_arr =
     bind_err (get_tile self xtile ytile (ovr_level img_tiles))
       (\<lambda>tile. stitch_image_tile tile fused_arr idx idy
                  (tile_width img_tiles) (tile_height img_tiles))"

text \<open>\<^verbatim>\<open>_request_tiles\<close>.\<close>

definition request_tiles ::
  "('d \<Rightarrow> real \<Rightarrow> 'a) \<Rightarrow> 'a partial_read \<Rightarrow> 'd tile_metadata \<Rightarrow> py_error + 'a nparray" where
  "request_tiles astype self img_tiles =
     bind_err (init_array astype self img_tiles)
       (run_all
          (concat (map (\<lambda>(idx, xtile).
                     map (\<lambda>(idy, ytile).
                            get_and_stitch_tile self xtile ytile idx idy img_tiles)
                         (enumerate 0 [ymin img_tiles..ymax img_tiles]))
                   (enumerate 0 [xmin img_tiles..xmax img_tiles]))))"

section \<open>Post-processing\<close>

definition slice3 :: "'x list list list \<Rightarrow> int \<Rightarrow> int \<Rightarrow> int \<Rightarrow> int \<Rightarrow> 'x list list list" where
  "slice3 a r0 r1 c0 c1 = map (\<lambda>band. map (\<lambda>row. py_slice row c0 c1) (py_slice band r0 r1)) a"

text \<open>\<^verbatim>\<open>_clip_array\<close>: slicing a masked array slices its data and its mask.\<close>

definition clip_array :: "'a nparray \<Rightarrow> 'd tile_metadata \<Rightarrow> 'a nparray" where
  "clip_array arr img_tiles =
     \<lparr>np_data = slice3 (np_data arr)
                  (tly img_tiles) (tly img_tiles + height img_tiles)
                  (tlx img_tiles) (tlx img_tiles + width img_tiles),
      np_mask = map_option
                  (\<lambda>m. slice3 m (tly img_tiles) (tly img_tiles + height img_tiles)
                                 (tlx img_tiles) (tlx img_tiles + width img_tiles))
                  (np_mask arr)\<rparr>"

text \<open>
  \<^verbatim>\<open>_resample\<close>. The image library is a parameter: \<open>pil_resize\<close> stands for the change of
  layout, \<^verbatim>\<open>Image.fromarray\<close>, \<^verbatim>\<open>resize\<close> and the way back (lines 298 to 306),
  \<open>pil_resize_mask\<close> for the bilinear resize of the first band of the mask.
\<close>

definition resample ::
  "('a list list list \<Rightarrow> int \<times> int \<Rightarrow> int \<Rightarrow> py_error + real list list list)
     \<Rightarrow> (bool list list \<Rightarrow> int \<times> int \<Rightarrow> py_error + bool list list)
     \<Rightarrow> ('d \<Rightarrow> real \<Rightarrow> 'a) \<Rightarrow> 'a partial_read \<Rightarrow> 'a nparray \<Rightarrow> 'd tile_metadata
     \<Rightarrow> int \<times> int \<Rightarrow> int \<Rightarrow> py_error + 'a nparray" where
  "resample pil_resize pil_resize_mask astype self clipped img_tiles out_shape resample_method =
     bind_err (pil_resize (np_data clipped) out_shape resample_method)
       (\<lambda>res.
          let resized = map (map (map (astype (dtype img_tiles)))) res in
          if add_mask self then
            (case np_mask clipped of
               None \<Rightarrow> Inl AttributeError
             | Some cm \<Rightarrow>
                 bind_err (py_index cm 0) (\<lambda>band0.
                 bind_err (pil_resize_mask band0 out_shape) (\<lambda>resized_mask.
                   if bands img_tiles \<le> 0 then Inl ValueError
                   else Inr \<lparr>np_data = resized,
                             np_mask = Some (replicate (nat (bands img_tiles)) resized_mask)\<rparr>)))
          else Inr \<lparr>np_data = resized, np_mask = None\<rparr>)"

text \<open>\<^verbatim>\<open>_postprocess\<close>.\<close>

definition postprocess ::
  "('a list list list \<Rightarrow> int \<times> int \<Rightarrow> int \<Rightarrow> py_error + real list list list)
     \<Rightarrow> (bool list list \<Rightarrow> int \<times> int \<Rightarrow> py_error + bool list list)
     \<Rightarrow> ('d \<Rightarrow> real \<Rightarrow> 'a) \<Rightarrow> 'a partial_read \<Rightarrow> 'a nparray \<Rightarrow> 'd tile_metadata
     \<Rightarrow> (int \<times> int) option \<Rightarrow> int \<Rightarrow> py_error + 'a nparray" where
  "postprocess pil_resize pil_resize_mask astype self arr img_tiles out_shape resample_method =
     (let clipped = clip_array arr img_tiles in
      case out_shape of
        None \<Rightarrow> Inr clipped
      | Some shp \<Rightarrow>
          resample pil_resize pil_resize_mask astype self clipped img_tiles shp resample_method)"

section \<open>Range requests\<close>

text \<open>
  \<^verbatim>\<open>LocalFilesystem\<close>: the open file and the counters of the base class.
\<close>

record local_filesystem =
  file_content :: bytes
  total_bytes_requested :: int
  total_requests :: int
  requested_ranges :: "(int \<times> int) list"

text \<open>
  \<^verbatim>\<open>seek(start)\<close> and \<^verbatim>\<open>read(n)\<close> on a binary file: a negative position raises, a
  length of \<open>-1\<close> reads to the end of the file, a smaller one raises, and a read stops at
  the end of the file.
\<close>

definition seek_read :: "bytes \<Rightarrow> int \<Rightarrow> int \<Rightarrow> py_error + bytes" where
  "seek_read content start n =
     (if start < 0 then Inl OSError
      else if n < - 1 then Inl ValueError
      else if n = - 1 then Inr (drop (nat start) content)
      else Inr (take (nat n) (drop (nat start) content)))"

text \<open>\<^verbatim>\<open>LocalFilesystem._range_request\<close>.\<close>

definition local_range_request ::
  "local_filesystem \<Rightarrow> int \<Rightarrow> int \<Rightarrow> py_error + bytes \<times> local_filesystem" where
  "local_range_request fs start offset =
     (case seek_read (file_content fs) start (offset + 1) of
        Inl err \<Rightarrow> Inl err
      | Inr data \<Rightarrow>
          Inr (data,
               fs\<lparr>total_bytes_requested := total_bytes_requested fs + (offset - start + 1),
                  total_requests := total_requests fs + 1,
                  requested_ranges := requested_ranges fs @ [(start, start + offset)]\<rparr>))"

section \<open>Merged range requests\<close>

text \<open>\<^verbatim>\<open>PartialReadInterface._extract_tile\<close>.\<close>

definition extract_tile :: "'a ifd \<Rightarrow> bytes \<Rightarrow> int \<Rightarrow> int \<Rightarrow> py_error + bytes" where
  "extract_tile directory img_bytes tile_index offset =
     bind_err (py_index (TileByteCounts directory) tile_index) (\<lambda>byte_count.
     bind_err (py_index (TileOffsets directory) tile_index) (\<lambda>tile_offset.
       let tile_start = tile_offset - offset
       in Inr (py_slice img_bytes tile_start (tile_start + byte_count))))"

text \<open>\<^verbatim>\<open>PartialReadInterface._merge_range_requests\<close>.\<close>

definition merge_range_requests :: "'a ifd \<Rightarrow> int list \<Rightarrow> int \<Rightarrow> py_error + int \<times> int" where
  "merge_range_requests directory tile_indices offset =
     bind_err (py_max tile_indices) (\<lambda>last_index.
     bind_err (py_index (TileOffsets directory) last_index) (\<lambda>last_offset.
     bind_err (py_index (TileByteCounts directory) last_index) (\<lambda>last_count.
       let byte_count = last_offset + last_count
       in Inr (offset, byte_count - offset - 1))))"

text \<open>
  \<^verbatim>\<open>_request_merged_tile\<close>, lines 367 to 388: the directory, the offset of the first tile,
  the offset of the first mask tile (read only when a mask is added) and the merged
  requests, the one for the image and, when a mask is added, the one for the mask.
\<close>

definition row_requests ::
  "'a partial_read \<Rightarrow> int list \<Rightarrow> 'd tile_metadata
     \<Rightarrow> py_error + 'a ifd \<times> int \<times> int \<times> (int \<times> int) list" where
  "row_requests self tile_indices img_tiles =
     bind_err (py_index (ifds self) (ovr_level img_tiles)) (\<lambda>directory.
     bind_err (py_min tile_indices) (\<lambda>first_index.
     bind_err (py_index (TileOffsets directory) first_index) (\<lambda>offset.
     bind_err (merge_range_requests directory tile_indices offset) (\<lambda>image_request.
       if add_mask self then
         bind_err (py_index (mask_ifds self) (ovr_level img_tiles)) (\<lambda>mask_ifd.
         bind_err (py_min tile_indices) (\<lambda>first_mask_index.
         bind_err (py_index (TileOffsets mask_ifd) first_mask_index) (\<lambda>mask_offset.
         bind_err (merge_range_requests mask_ifd tile_indices mask_offset) (\<lambda>mask_request.
           Inr (directory, offset, mask_offset, [image_request, mask_request])))))
       else Inr (directory, offset, 0, [image_request])))))"

text \<open>
  The body of the loop of \<^verbatim>\<open>_request_merged_tile\<close> for one tile, lines 395 to 409: the
  bytes of the tile are cut out of the merged response and decoded, and when a mask is
  added the mask bytes are cut out and decoded, broadcast to the shape of the tile and
  inverted. \<open>response\<close> holds the bytes of the merged image range and, after it, of the
  merged mask range.
\<close>

definition decode_merged_tile ::
  "'a partial_read \<Rightarrow> 'a ifd \<Rightarrow> bytes list \<Rightarrow> int \<Rightarrow> int \<Rightarrow> 'd tile_metadata \<Rightarrow> int
     \<Rightarrow> py_error + 'a nparray" where
  "decode_merged_tile self directory response offset mask_offset img_tiles tile_idx =
     bind_err (py_index response 0) (\<lambda>image_bytes.
     bind_err (extract_tile directory image_bytes tile_idx offset) (\<lambda>tile_bytes.
     bind_err (decompress directory tile_bytes) (\<lambda>decoded.
       if add_mask self then
         bind_err (py_index (mask_ifds self) (ovr_level img_tiles)) (\<lambda>mask_ifd.
         bind_err (py_index response 1) (\<lambda>mask_range.
         bind_err (extract_tile mask_ifd mask_range tile_idx mask_offset) (\<lambda>mask_bytes.
         bind_err (decompress_mask directory mask_bytes) (\<lambda>mask_decoded.
           case broadcast_to2 mask_decoded (shape3 decoded) of
             None \<Rightarrow> Inl ValueError
           | Some bm \<Rightarrow>
               Inr \<lparr>np_data = decoded, np_mask = Some (map (map (map Not)) bm)\<rparr>))))
       else Inr \<lparr>np_data = decoded, np_mask = None\<rparr>)))"

text \<open>One turn of the loop: the tile is decoded and stitched (lines 394 to 413).\<close>

definition merged_tile_step ::
  "'a partial_read \<Rightarrow> 'a ifd \<Rightarrow> bytes list \<Rightarrow> int \<Rightarrow> int \<Rightarrow> 'd tile_metadata
     \<Rightarrow> int \<times> nat \<times> nat \<Rightarrow> 'a nparray \<Rightarrow> py_error + 'a nparray" where
  "merged_tile_step self directory response offset mask_offset img_tiles index arr =
     (case index of (tile_idx, idx, idy) \<Rightarrow>
        bind_err (decode_merged_tile self directory response offset mask_offset img_tiles tile_idx)
          (\<lambda>tile. stitch_image_tile tile arr idx idy
                     (tile_width img_tiles) (tile_height img_tiles)))"

text \<open>
  \<^verbatim>\<open>_request_merged_tile\<close>: the merged requests are awaited together, then the loop runs
  over the tiles of the row.
\<close>

definition request_merged_tile ::
  "'a partial_read \<Rightarrow> (int \<times> nat \<times> nat) list \<Rightarrow> 'd tile_metadata \<Rightarrow> 'a nparray
     \<Rightarrow> py_error + 'a nparray" where
  "request_merged_tile self indices img_tiles arr =
     bind_err (row_requests self (map fst indices) img_tiles)
       (\<lambda>(directory, offset, mask_offset, requests).
     bind_err (gather_results (map (\<lambda>(start, n). range_request self start n) requests))
       (\<lambda>response.
          run_all (map (merged_tile_step self directory response offset mask_offset img_tiles)
                       indices) arr))"

text \<open>
  The indices that \<^verbatim>\<open>_request_merged_tiles\<close> collects for the row \<open>ytile\<close> (lines 423 to
  426): the flat tile index, and the position of the tile in the mosaic.
\<close>

definition row_indices ::
  "'a ifd \<Rightarrow> 'd tile_metadata \<Rightarrow> nat \<Rightarrow> int \<Rightarrow> (int \<times> nat \<times> nat) list" where
  "row_indices directory img_tiles idy ytile =
     map (\<lambda>(idx, xtile). (ytile * fst (tile_count directory) + xtile, idx, idy))
         (enumerate 0 [xmin img_tiles..xmax img_tiles])"

text \<open>\<^verbatim>\<open>_request_merged_tiles\<close>.\<close>

definition request_merged_tiles ::
  "('d \<Rightarrow> real \<Rightarrow> 'a) \<Rightarrow> 'a partial_read \<Rightarrow> 'd tile_metadata \<Rightarrow> py_error + 'a nparray" where
  "request_merged_tiles astype self img_tiles =
     bind_err (py_index (ifds self) (ovr_level img_tiles)) (\<lambda>directory.
     bind_err (init_array astype self img_tiles)
       (run_all
          (map (\<lambda>(idy, ytile).
                  request_merged_tile self (row_indices directory img_tiles idy ytile) img_tiles)
               (enumerate 0 [ymin img_tiles..ymax img_tiles]))))"

section \<open>The tile reader of the per-tile path\<close>

text \<open>
  Modelled from the spec: \<^verbatim>\<open>get_tile\<close> of the concrete reader, which the per-tile path
  calls and whose source is not among the files (the class declares it abstract). In the
  specification's words the per-tile path fetches the exact byte range of the tile from
  the storage collaborator (\<open>fetch_range(start, length_minus_one)\<close> returns the bytes from
  \<open>start\<close> through \<open>start + length_minus_one\<close>) and decodes it with the format collaborator;
  the flat index of the tile is \<open>row * tile_grid_width + col\<close>; a mask directory exists only
  when the source declares an internal mask, its tiles are decoded with the mask
  directory's decoder, and the mask of a tile is the complement of the decoded mask.
\<close>

definition get_tile_spec :: "'a partial_read \<Rightarrow> int \<Rightarrow> int \<Rightarrow> int \<Rightarrow> py_error + 'a nparray" where
  "get_tile_spec self x y z =
     bind_err (py_index (ifds self) z) (\<lambda>directory.
       let tile_index = y * fst (tile_count directory) + x in
       bind_err (py_index (TileOffsets directory) tile_index) (\<lambda>offset.
       bind_err (py_index (TileByteCounts directory) tile_index) (\<lambda>byte_count.
       bind_err (range_request self offset (byte_count - 1)) (\<lambda>tile_bytes.
       bind_err (decompress directory tile_bytes) (\<lambda>decoded.
         if is_masked self then
           bind_err (py_index (mask_ifds self) z) (\<lambda>mask_ifd.
           bind_err (py_index (TileOffsets mask_ifd) tile_index) (\<lambda>mask_offset.
           bind_err (py_index (TileByteCounts mask_ifd) tile_index) (\<lambda>mask_count.
           bind_err (range_request self mask_offset (mask_count - 1)) (\<lambda>mask_bytes.
           bind_err (decompress_mask mask_ifd mask_bytes) (\<lambda>mask_decoded.
             case broadcast_to2 mask_decoded (shape3 decoded) of
               None \<Rightarrow> Inl ValueError
             | Some bm \<Rightarrow>
                 Inr \<lparr>np_data = decoded, np_mask = Some (map (map (map Not)) bm)\<rparr>)))))
         else Inr \<lparr>np_data = decoded, np_mask = None\<rparr>)))))"

section \<open>Concrete inputs\<close>

text \<open>
  A north-up image with an internal mask and overviews at decimations 2 and 4, and the
  request for the tiles (5, 5) to (6, 6) of two by two pixels each.
\<close>

definition ex_self :: "int partial_read" where
  "ex_self =
     \<lparr>is_masked = True, nodata = None, overviews = [2, 4],
      geotransform = (\<lambda>_. Affine 1 0 0 0 (- 1) 0),
      get_tile = (\<lambda>_ _ _. Inl FileNotFoundError),
      ifds = [], mask_ifds = [],
      range_request = (\<lambda>_ _. Inl FileNotFoundError)\<rparr>"

definition ex_meta :: "unit tile_metadata" where
  "ex_meta =
     \<lparr>tlx = 0, tly = 0, width = 4, height = 4, tile_width = 2, tile_height = 2,
      xmin = 5, ymin = 5, xmax = 6, ymax = 6, bands = 1, dtype = (), ovr_level = 0,
      x_coord = [], y_coord = []\<rparr>"

text \<open>
  A file of four image tiles of two bytes each, laid out in a grid of two by two tiles, and
  after them the four tiles of the mask. A tile is one row of two pixels in one band; the
  decoders read one pixel, or one mask entry, from each byte.
\<close>

definition ex_content :: bytes where
  "ex_content = [10, 11, 12, 13, 14, 15, 16, 17, 1, 0, 0, 1, 1, 1, 0, 0]"

definition ex_ifd :: "int ifd" where
  "ex_ifd =
     \<lparr>TileOffsets = [0, 2, 4, 6], TileByteCounts = [2, 2, 2, 2], tile_count = (2, 2),
      decompress = (\<lambda>bs. Inr [[map int bs]]),
      decompress_mask = (\<lambda>bs. Inr [map (\<lambda>b. b \<noteq> 0) bs])\<rparr>"

definition ex_mask_ifd :: "int ifd" where
  "ex_mask_ifd =
     \<lparr>TileOffsets = [8, 10, 12, 14], TileByteCounts = [2, 2, 2, 2], tile_count = (2, 2),
      decompress = (\<lambda>bs. Inr [[map int bs]]),
      decompress_mask = (\<lambda>bs. Inr [map (\<lambda>b. b \<noteq> 0) bs])\<rparr>"

definition ex_fs :: local_filesystem where
  "ex_fs =
     \<lparr>file_content = ex_content, total_bytes_requested = 0, total_requests = 0,
      requested_ranges = []\<rparr>"

definition ex_reader :: "int partial_read" where
  "ex_reader =
     \<lparr>is_masked = True, nodata = None, overviews = [],
      geotransform = (\<lambda>_. Affine 1 0 0 0 (- 1) 0),
      get_tile = (\<lambda>_ _ _. Inl FileNotFoundError),
      ifds = [ex_ifd], mask_ifds = [ex_mask_ifd],
      range_request = (\<lambda>start offset. seek_read ex_content start (offset + 1))\<rparr>"

definition ex_tiles :: "unit tile_metadata" where
  "ex_tiles =
     \<lparr>tlx = 0, tly = 0, width = 4, height = 2, tile_width = 2, tile_height = 1,
      xmin = 0, ymin = 0, xmax = 1, ymax = 1, bands = 1, dtype = (), ovr_level = 0,
      x_coord = [], y_coord = []\<rparr>"

section \<open>Bounds intersection: touching boxes\<close>

text \<open>
  C10. The intersection test is the conjunction of four strict comparisons, so two boxes
  that only touch along an edge or at a corner (one box's left, right, bottom or top equal
  to the other's opposite side) do not intersect.
\<close>

theorem touching_bounds_do_not_intersect:
  "intersect_bounds (r0, r1, r2, r3) (c0, c1, c2, c3)
     = (c0 < r2 \<and> r0 < c2 \<and> r1 < c3 \<and> c1 < r3)
   \<and> (c0 = r2 \<or> c2 = r0 \<or> c3 = r1 \<or> c1 = r3
        \<longrightarrow> \<not> intersect_bounds (r0, r1, r2, r3) (c0, c1, c2, c3))"
  by (auto simp: intersect_bounds_def)

theorem touching_bounds_do_not_intersect_witness:
  "intersect_bounds (1, 0, 2, 1) (0, 0, 1, 1)
     = ((0::real) < 2 \<and> (1::real) < 1 \<and> (0::real) < 1 \<and> (0::real) < 1)
   \<and> (1::real) = 1
   \<and> \<not> intersect_bounds (1, 0, 2, 1) (0, 0, 1, 1)"
  using touching_bounds_do_not_intersect[of 1 0 2 1 0 0 1 1] by simp

section \<open>Overview selection: the first qualifying level\<close>

lemma overview_loop_first:
  "sorted_wrt (>) js \<Longrightarrow>
     (overview_loop res p t js \<in> set js
        \<and> level_qualifies res p t (overview_loop res p t js)
        \<and> (\<forall>j\<in>set js. overview_loop res p t js < j \<longrightarrow> \<not> level_qualifies res p t j))
     \<or> (overview_loop res p t js = 0 \<and> (\<forall>j\<in>set js. \<not> level_qualifies res p t j))"
proof (induction js)
  case Nil
  then show ?case by simp
next
  case (Cons i rest)
  then have above: "\<forall>j\<in>set rest. j < i" and srt: "sorted_wrt (>) rest" by auto
  show ?case
  proof (cases "level_qualifies res p t i")
    case True
    then have "overview_loop res p t (i # rest) = i"
      by (simp add: level_qualifies_def level_threshold_def Let_def)
    with True above show ?thesis by auto
  next
    case False
    then have eq: "overview_loop res p t (i # rest) = overview_loop res p t rest"
      by (simp add: level_qualifies_def level_threshold_def Let_def)
    from Cons.IH[OF srt] False show ?thesis unfolding eq by auto
  qed
qed

lemma select_level_first:
  "(1 \<le> select_level res p t \<and> select_level res p t < length res
      \<and> level_qualifies res p t (select_level res p t)
      \<and> (\<forall>j. select_level res p t < j \<and> j < length res \<longrightarrow> \<not> level_qualifies res p t j))
   \<or> (select_level res p t = 0
      \<and> (\<forall>j. 1 \<le> j \<and> j < length res \<longrightarrow> \<not> level_qualifies res p t j))"
proof -
  have s: "sorted_wrt (>) (rev [1..<length res])"
    by (simp add: sorted_wrt_rev)
  from overview_loop_first[OF s, of res p t] show ?thesis
    unfolding select_level_def by auto
qed

text \<open>
  C3. For a percentage in 0..100 (and a width and height that are not zero), overview
  selection returns a level \<open>i\<close> of the list of available resolutions (the native resolution,
  then the native resolution times each decimation factor) such that no level above \<open>i\<close>
  qualifies and, unless \<open>i\<close> is 0, level \<open>i\<close> qualifies: the first level, walking down from
  the coarsest index to index 1, whose threshold
  \<open>res[i] - (res[i] - res[i-1]) * p / 100\<close> the target resolution exceeds or whose resolution
  it equals, and 0 when there is none.
\<close>

theorem overview_selection_first_qualifying:
  assumes "0 \<le> strategy_percentage s" and "strategy_percentage s \<le> 100"
    and "w \<noteq> 0" and "h \<noteq> 0"
  shows "\<exists>i. get_overview_level self s (b0, b1, b2, b3) w h = Inr i
     \<and> i < length (available_resolutions (aff_a (geotransform self 0)) (overviews self))
     \<and> (i = 0 \<or> level_qualifies
                   (available_resolutions (aff_a (geotransform self 0)) (overviews self))
                   (strategy_percentage s) ((b2 - b0) / of_int w) i)
     \<and> (\<forall>j. i < j
            \<and> j < length (available_resolutions (aff_a (geotransform self 0)) (overviews self))
           \<longrightarrow> \<not> level_qualifies
                   (available_resolutions (aff_a (geotransform self 0)) (overviews self))
                   (strategy_percentage s) ((b2 - b0) / of_int w) j)"
proof -
  let ?res = "available_resolutions (aff_a (geotransform self 0)) (overviews self)"
  let ?t = "(b2 - b0) / of_int w"
  have t: "aff_a (affine_mul (affine_translation b0 b3)
             (affine_scale ((b2 - b0) / of_int w) ((b1 - b3) / of_int h))) = ?t"
    by (simp add: affine_mul_def affine_translation_def affine_scale_def Affine_def)
  have g: "get_overview_level self s (b0, b1, b2, b3) w h
             = Inr (select_level ?res (strategy_percentage s) ?t)"
    using assms by (simp add: get_overview_level_def Let_def t)
  have n: "0 < length ?res"
    by (simp add: available_resolutions_def)
  from select_level_first[of ?res "strategy_percentage s" ?t] n show ?thesis
    unfolding g by auto
qed

theorem overview_selection_first_qualifying_witness:
  "0 \<le> strategy_percentage AUTO \<and> strategy_percentage AUTO \<le> 100 \<and> (256::int) \<noteq> 0
   \<and> (\<exists>i. get_overview_level ex_self AUTO (0, 0, 768, 768) 256 256 = Inr i
     \<and> i < length (available_resolutions (aff_a (geotransform ex_self 0)) (overviews ex_self))
     \<and> (i = 0 \<or> level_qualifies
                   (available_resolutions (aff_a (geotransform ex_self 0)) (overviews ex_self))
                   (strategy_percentage AUTO) ((768 - 0) / of_int 256) i)
     \<and> (\<forall>j. i < j
            \<and> j < length (available_resolutions (aff_a (geotransform ex_self 0)) (overviews ex_self))
           \<longrightarrow> \<not> level_qualifies
                   (available_resolutions (aff_a (geotransform ex_self 0)) (overviews ex_self))
                   (strategy_percentage AUTO) ((768 - 0) / of_int 256) j))"
proof -
  have p: "0 \<le> strategy_percentage AUTO" "strategy_percentage AUTO \<le> 100" by simp_all
  have w: "(256::int) \<noteq> 0" by simp
  note c = overview_selection_first_qualifying[OF p w w,
      where self = ex_self and ?b0.0 = 0 and ?b1.0 = 0 and ?b2.0 = 768 and ?b3.0 = 768]
  show ?thesis
    by (rule conjI[OF p(1) conjI[OF p(2) conjI[OF w c]]])
qed

section \<open>Overview selection: monotonicity\<close>

lemma level_qualifies_mono:
  assumes "sorted res" and "0 \<le> p" and "1 \<le> i" and "i < length res" and "t1 \<le> t2"
    and "level_qualifies res p t1 i"
  shows "level_qualifies res p t2 i"
proof -
  have "res ! (i - 1) \<le> res ! i"
    using assms(1,3,4) by (simp add: sorted_iff_nth_mono)
  then have "0 \<le> (res ! i - res ! (i - 1)) * (of_int p / 100)"
    using assms(2) by simp
  then have thr: "level_threshold res p i \<le> res ! i"
    by (simp add: level_threshold_def)
  from assms(6) consider "t1 > level_threshold res p i" | "t1 = res ! i"
    by (auto simp: level_qualifies_def)
  then show ?thesis
  proof cases
    case 1
    with assms(5) show ?thesis by (simp add: level_qualifies_def)
  next
    case 2
    with assms(5) thr show ?thesis by (auto simp: level_qualifies_def)
  qed
qed

text \<open>
  C4, as stated, fails: with the resolutions 1, 4, 2 (decimation factors 4 and 2, not in
  increasing order) and the percentage 50, the target resolution 2 selects level 2 and the
  coarser target resolution 5/2 selects level 0.
\<close>

theorem overview_selection_not_monotonic:
  "(2 :: real) \<le> 5 / 2 \<and> (0::int) \<le> 50 \<and> (50::int) \<le> 100
     \<and> available_resolutions 1 [4, 2] = [1, 4, 2]
     \<and> select_level [1, 4, 2] 50 2 = 2 \<and> select_level [1, 4, 2] 50 (5 / 2) = 0"
  by (simp add: select_level_def available_resolutions_def upt_rec Let_def)

text \<open>
  C4, amended. For a percentage in 0..100 and a list of resolutions that never decreases
  from one level to the next coarser one, overview selection is monotonic in the target
  resolution: a finer target never selects a coarser level.
\<close>

theorem overview_selection_monotonic:
  assumes "sorted res" and "0 \<le> p" and "p \<le> 100" and "t1 \<le> t2"
  shows "select_level res p t1 \<le> select_level res p t2"
proof (cases "select_level res p t1 = 0")
  case True
  then show ?thesis by simp
next
  case False
  let ?l1 = "select_level res p t1"
  from select_level_first[of res p t1] False
  have l1: "1 \<le> ?l1" "?l1 < length res" "level_qualifies res p t1 ?l1" by auto
  have q2: "level_qualifies res p t2 ?l1"
    by (rule level_qualifies_mono[OF assms(1,2) l1(1,2) assms(4) l1(3)])
  from select_level_first[of res p t2] show ?thesis
  proof
    assume a: "1 \<le> select_level res p t2 \<and> select_level res p t2 < length res
      \<and> level_qualifies res p t2 (select_level res p t2)
      \<and> (\<forall>j. select_level res p t2 < j \<and> j < length res \<longrightarrow> \<not> level_qualifies res p t2 j)"
    show ?thesis
    proof (rule ccontr)
      assume "\<not> ?thesis"
      then have "select_level res p t2 < ?l1" by simp
      with a l1(2) q2 show False by blast
    qed
  next
    assume "select_level res p t2 = 0
      \<and> (\<forall>j. 1 \<le> j \<and> j < length res \<longrightarrow> \<not> level_qualifies res p t2 j)"
    with l1 q2 show ?thesis by blast
  qed
qed

theorem overview_selection_monotonic_witness:
  "sorted [1, 2, 4 :: real] \<and> (0::int) \<le> 50 \<and> (50::int) \<le> 100 \<and> (3 / 2 :: real) \<le> 7 / 2
     \<and> select_level [1, 2, 4] 50 (3 / 2) \<le> select_level [1, 2, 4] 50 (7 / 2)"
  using overview_selection_monotonic[of "[1, 2, 4]" 50 "3 / 2" "7 / 2"] by simp

section \<open>Tile geometry: a bound on a tile edge\<close>

lemma floor_tile_edge:
  assumes "0 < tw"
  shows "\<lfloor>(of_int k * of_int tw + 1 / 1000000) / (of_int tw :: real)\<rfloor> = k"
proof -
  have tw1: "(1::real) \<le> of_int tw" using assms by linarith
  have e: "(of_int k * of_int tw + 1 / 1000000) / (of_int tw :: real)
             = of_int k + (1 / 1000000) / of_int tw"
    using assms by (simp add: field_simps)
  have "0 \<le> (1 / 1000000) / (of_int tw :: real)" using assms by simp
  moreover have "(1 / 1000000) / (of_int tw :: real) < 1"
    using tw1 by (simp add: field_simps)
  ultimately show ?thesis unfolding e by (simp add: floor_eq_iff)
qed

lemma affine_invert_fused:
  assumes "affine_invert gt = Inr invgt"
  shows "\<exists>inv. affine_invert (Affine (aff_a gt) (aff_b gt) x (aff_d gt) (aff_e gt) y) = Inr inv"
  using assms
  by (simp add: affine_invert_def affine_determinant_def Affine_def split: if_splits)

text \<open>
  C5. With positive tile dimensions, a request whose corners fall, in pixel coordinates,
  exactly on tile boundaries (\<open>kx * tile_width\<close>, \<open>ky * tile_height\<close> for the top left
  corner, \<open>jx * tile_width\<close>, \<open>jy * tile_height\<close> for the bottom right one) selects the tile
  indices \<open>kx\<close>, \<open>ky\<close>, \<open>jx\<close> and \<open>jy\<close>: the floor of the coordinate plus \<open>1e-6\<close> over the tile
  dimension is the index of the boundary, for every integer index.
\<close>

theorem tile_edge_selects_tile:
  assumes inv: "affine_invert (geotransform self lvl) = Inr invgt"
    and tl: "affine_apply invgt (b0, b3) = (of_int (kx * tw), of_int (ky * th))"
    and br: "affine_apply invgt (b2, b1) = (of_int (jx * tw), of_int (jy * th))"
    and tw: "0 < tw" and th: "0 < th"
  shows "\<exists>m. calculate_image_tiles self (b0, b1, b2, b3) tw th nb lvl dt = Inr m
           \<and> xmin m = kx \<and> ymin m = ky \<and> xmax m = jx \<and> ymax m = jy"
proof -
  obtain ftlx ftly
    where f: "affine_apply (geotransform self lvl) (of_int kx * of_int tw, of_int ky * of_int th)
                = (ftlx, ftly)"
    by (cases "affine_apply (geotransform self lvl) (of_int kx * of_int tw, of_int ky * of_int th)")
  obtain finv
    where fi: "affine_invert (Affine (aff_a (geotransform self lvl)) (aff_b (geotransform self lvl))
                 ftlx (aff_d (geotransform self lvl)) (aff_e (geotransform self lvl)) ftly) = Inr finv"
    using affine_invert_fused[OF inv] by blast
  obtain ox oy where o: "affine_apply finv (b0, b3) = (ox, oy)"
    by (cases "affine_apply finv (b0, b3)")
  show ?thesis
    using tw th
    by (simp add: calculate_image_tiles_def inv tl br Let_def floor_tile_edge f fi o)
qed

theorem tile_edge_selects_tile_witness:
  "affine_invert (geotransform ex_self 0) = Inr (Affine 1 0 0 0 (- 1) 0)
   \<and> affine_apply (Affine 1 0 0 0 (- 1) 0) (768, - 768) = (of_int (3 * 256), of_int (3 * 256))
   \<and> affine_apply (Affine 1 0 0 0 (- 1) 0) (1280, - 1024) = (of_int (5 * 256), of_int (4 * 256))
   \<and> (0::int) < 256
   \<and> (\<exists>m. calculate_image_tiles ex_self (768, - 1024, 1280, - 768) 256 256 3 0 () = Inr m
           \<and> xmin m = 3 \<and> ymin m = 3 \<and> xmax m = 5 \<and> ymax m = 4)"
proof -
  have i: "affine_invert (geotransform ex_self 0) = Inr (Affine 1 0 0 0 (- 1) 0)"
    by (simp add: ex_self_def affine_invert_def affine_determinant_def Affine_def)
  have a: "affine_apply (Affine 1 0 0 0 (- 1) 0) (768, - 768)
             = (of_int (3 * 256), of_int (3 * 256))"
    by (simp add: affine_apply_def Affine_def)
  have b: "affine_apply (Affine 1 0 0 0 (- 1) 0) (1280, - 1024)
             = (of_int (5 * 256), of_int (4 * 256))"
    by (simp add: affine_apply_def Affine_def)
  have c: "(0::int) < 256" by simp
  note t = tile_edge_selects_tile[where nb = 3 and dt = "()", OF i a b c c]
  show ?thesis
    by (rule conjI[OF i conjI[OF a conjI[OF b conjI[OF c t]]]])
qed

section \<open>Post-processing: the crop\<close>

lemma py_slice_in_range:
  assumes "0 \<le> start" and "start \<le> stop" and "stop \<le> int (length xs)"
  shows "py_slice xs start stop = take (nat (stop - start)) (drop (nat start) xs)"
  using assms
  by (auto simp: py_slice_def slice_bounds_def Let_def max_def min_def nat_diff_distrib)

text \<open>
  C6. Without an output shape, post-processing returns the slice
  \<^verbatim>\<open>mosaic[:, tly : tly + height, tlx : tlx + width]\<close> of the mosaic (every band, the rows
  and the columns of the window, the mask sliced alike), whatever the resampling primitives
  and the resampling method are: nothing is resampled.
\<close>

theorem postprocess_without_shape_is_crop:
  "postprocess pil_resize pil_resize_mask astype self mosaic img_tiles None resample_method =
     Inr \<lparr>np_data =
            map (\<lambda>band.
                   map (\<lambda>row. py_slice row (tlx img_tiles) (tlx img_tiles + width img_tiles))
                       (py_slice band (tly img_tiles) (tly img_tiles + height img_tiles)))
                (np_data mosaic),
          np_mask =
            map_option
              (map (\<lambda>band.
                      map (\<lambda>row. py_slice row (tlx img_tiles) (tlx img_tiles + width img_tiles))
                          (py_slice band (tly img_tiles) (tly img_tiles + height img_tiles))))
              (np_mask mosaic)\<rparr>"
  by (simp add: postprocess_def clip_array_def slice3_def)

section \<open>The mosaic buffer: allocation\<close>

text \<open>
  C9. When the three entries of the shape are not negative, the buffer allocated before
  fetching has the shape (bands, (ymax - ymin + 1) * tile_height,
  (xmax - xmin + 1) * tile_width), every element is the zero of the element type of the
  metadata, and it carries a mask (nothing masked) exactly when the source has an internal
  mask or a nodata value.
\<close>

theorem init_array_zero_buffer:
  assumes "0 \<le> bands m"
    and "0 \<le> (ymax m - ymin m + 1) * tile_height m"
    and "0 \<le> (xmax m - xmin m + 1) * tile_width m"
  shows "\<exists>arr. init_array astype self m = Inr arr
           \<and> np_data arr =
               replicate (nat (bands m))
                 (replicate (nat ((ymax m - ymin m + 1) * tile_height m))
                    (replicate (nat ((xmax m - xmin m + 1) * tile_width m)) (astype (dtype m) 0)))
           \<and> (np_mask arr \<noteq> None) = (is_masked self \<or> nodata self \<noteq> None)
           \<and> (\<forall>mask. np_mask arr = Some mask \<longrightarrow>
                 mask = replicate (nat (bands m))
                          (replicate (nat ((ymax m - ymin m + 1) * tile_height m))
                             (replicate (nat ((xmax m - xmin m + 1) * tile_width m)) False)))"
proof -
  have e1: "ymax m + 1 - ymin m = ymax m - ymin m + 1"
    and e2: "xmax m + 1 - xmin m = xmax m - xmin m + 1"
    by simp_all
  show ?thesis
    using assms
    by (auto simp: init_array_def np_zeros_def bind_err_def e1 e2 add_mask_def
        ma_masked_array_def ma_getmaskarray_def Let_def)
qed

theorem init_array_zero_buffer_witness:
  "0 \<le> bands ex_meta
   \<and> 0 \<le> (ymax ex_meta - ymin ex_meta + 1) * tile_height ex_meta
   \<and> 0 \<le> (xmax ex_meta - xmin ex_meta + 1) * tile_width ex_meta
   \<and> (\<exists>arr. init_array (\<lambda>_. floor) ex_self ex_meta = Inr arr
         \<and> np_data arr = replicate 1 (replicate 4 (replicate 4 0))
         \<and> np_mask arr = Some (replicate 1 (replicate 4 (replicate 4 False))))"
proof -
  have h: "0 \<le> bands ex_meta"
    "0 \<le> (ymax ex_meta - ymin ex_meta + 1) * tile_height ex_meta"
    "0 \<le> (xmax ex_meta - xmin ex_meta + 1) * tile_width ex_meta"
    by (simp_all add: ex_meta_def)
  from init_array_zero_buffer[OF h, of "\<lambda>_. floor" ex_self]
  obtain arr where a: "init_array (\<lambda>_. floor) ex_self ex_meta = Inr arr"
    "np_data arr = replicate (nat (bands ex_meta))
                 (replicate (nat ((ymax ex_meta - ymin ex_meta + 1) * tile_height ex_meta))
                    (replicate (nat ((xmax ex_meta - xmin ex_meta + 1) * tile_width ex_meta)) 0))"
    "(np_mask arr \<noteq> None) = (is_masked ex_self \<or> nodata ex_self \<noteq> None)"
    "\<forall>mask. np_mask arr = Some mask \<longrightarrow>
       mask = replicate (nat (bands ex_meta))
                (replicate (nat ((ymax ex_meta - ymin ex_meta + 1) * tile_height ex_meta))
                   (replicate (nat ((xmax ex_meta - xmin ex_meta + 1) * tile_width ex_meta)) False))"
    by auto
  from a(3) obtain mask where m: "np_mask arr = Some mask"
    by (auto simp: ex_self_def)
  with a(4) have "np_mask arr = Some (replicate 1 (replicate 4 (replicate 4 False)))"
    by (simp add: ex_meta_def)
  moreover from a(2) have "np_data arr = replicate 1 (replicate 4 (replicate 4 0))"
    by (simp add: ex_meta_def)
  ultimately show ?thesis using h a(1) by blast
qed

section \<open>Merged range requests: the span of a row\<close>

lemma py_min_sorted:
  assumes "xs \<noteq> []" and "sorted xs"
  shows "py_min xs = Inr (hd xs)"
proof -
  obtain y ys where xs: "xs = y # ys" using assms(1) by (cases xs) auto
  have "fold min ys y = Min (set (y # ys))" by (rule Min.set_eq_fold[symmetric])
  also have "\<dots> = y"
    using assms(2) unfolding xs by (intro Min_eqI) auto
  finally show ?thesis by (simp add: py_min_def xs)
qed

lemma py_max_sorted:
  assumes "xs \<noteq> []" and "sorted xs"
  shows "py_max xs = Inr (last xs)"
proof -
  obtain y ys where xs: "xs = y # ys" using assms(1) by (cases xs) auto
  have le: "\<And>z. z \<in> set xs \<Longrightarrow> z \<le> last xs"
  proof -
    fix z assume "z \<in> set xs"
    then obtain i where i: "i < length xs" "xs ! i = z" by (auto simp: in_set_conv_nth)
    then have "xs ! i \<le> xs ! (length xs - 1)"
      using assms(2) by (intro sorted_nth_mono) auto
    with i assms(1) show "z \<le> last xs" by (simp add: last_conv_nth)
  qed
  have "fold max ys y = Max (set (y # ys))" by (rule Max.set_eq_fold[symmetric])
  also have "\<dots> = last xs"
    using le assms(1) unfolding xs[symmetric] by (intro Max_eqI) auto
  finally show ?thesis by (simp add: py_max_def xs)
qed

lemma take_drop_span:
  assumes "s + n \<le> length xs"
  shows "take n (drop s xs) = map (\<lambda>k. xs ! k) [s..<s + n]"
  using assms by (intro nth_equalityI) auto

text \<open>
  C7. For a non-empty list of tile indices in increasing order (the tiles of a row) whose
  first and last tiles the directory lists, the merged request starts at the offset of the
  first tile and asks for the offset of the last tile plus its byte count, minus the start,
  minus one; and, when that span lies inside the file, the range request of the local
  filesystem delivers the bytes at the positions from the start through the offset of the
  last tile plus its byte count minus one: the requested length minus one, plus one, bytes.
\<close>

theorem merged_range_covers_row:
  assumes ne: "tile_indices \<noteq> []" and srt: "sorted tile_indices"
    and fo: "py_index (TileOffsets directory) (hd tile_indices) = Inr first_offset"
    and lo: "py_index (TileOffsets directory) (last tile_indices) = Inr last_offset"
    and lc: "py_index (TileByteCounts directory) (last tile_indices) = Inr last_count"
    and nonneg: "0 \<le> first_offset"
    and span: "first_offset < last_offset + last_count"
    and infile: "last_offset + last_count \<le> int (length (file_content fs))"
  shows "py_min tile_indices = Inr (hd tile_indices)
     \<and> merge_range_requests directory tile_indices first_offset
           = Inr (first_offset, last_offset + last_count - first_offset - 1)
     \<and> (\<exists>fs'. local_range_request fs first_offset (last_offset + last_count - first_offset - 1)
           = Inr (map (\<lambda>k. file_content fs ! k)
                      [nat first_offset..<nat (last_offset + last_count)], fs'))
     \<and> int (length [nat first_offset..<nat (last_offset + last_count)])
           = (last_offset + last_count - first_offset - 1) + 1"
proof -
  have m: "merge_range_requests directory tile_indices first_offset
           = Inr (first_offset, last_offset + last_count - first_offset - 1)"
    by (simp add: merge_range_requests_def py_max_sorted[OF ne srt] lo lc bind_err_def)
  let ?s = "nat first_offset" and ?n = "nat (last_offset + last_count - first_offset)"
  have "?s + ?n \<le> length (file_content fs)" using nonneg span infile by linarith
  from take_drop_span[OF this]
  have td: "take ?n (drop ?s (file_content fs))
              = map (\<lambda>k. file_content fs ! k) [?s..<nat (last_offset + last_count)]"
    using nonneg span by (simp add: nat_diff_distrib)
  have "\<exists>fs'. local_range_request fs first_offset (last_offset + last_count - first_offset - 1)
           = Inr (map (\<lambda>k. file_content fs ! k) [?s..<nat (last_offset + last_count)], fs')"
    using nonneg span by (simp add: local_range_request_def seek_read_def td)
  moreover have "int (length [?s..<nat (last_offset + last_count)])
           = (last_offset + last_count - first_offset - 1) + 1"
    using nonneg span by simp
  ultimately show ?thesis using m py_min_sorted[OF ne srt] by blast
qed

theorem merged_range_covers_row_witness:
  "[0, 1 :: int] \<noteq> [] \<and> sorted [0, 1 :: int]
   \<and> py_index (TileOffsets ex_ifd) (hd [0, 1]) = Inr 0
   \<and> py_index (TileOffsets ex_ifd) (last [0, 1]) = Inr 2
   \<and> py_index (TileByteCounts ex_ifd) (last [0, 1]) = Inr 2
   \<and> (0::int) \<le> 0 \<and> (0::int) < 2 + 2 \<and> (2::int) + 2 \<le> int (length (file_content ex_fs))
   \<and> py_min [0, 1] = Inr (hd [0, 1])
   \<and> merge_range_requests ex_ifd [0, 1] 0 = Inr (0, 2 + 2 - 0 - 1)
   \<and> (\<exists>fs'. local_range_request ex_fs 0 (2 + 2 - 0 - 1)
           = Inr (map (\<lambda>k. file_content ex_fs ! k) [nat 0..<nat (2 + 2)], fs'))
   \<and> int (length [nat 0..<nat (2 + 2)]) = (2 + 2 - 0 - 1) + 1"
proof -
  have h1: "[0, 1 :: int] \<noteq> []" and h2: "sorted [0, 1 :: int]" by simp_all
  have h3: "py_index (TileOffsets ex_ifd) (hd [0, 1]) = Inr 0"
    and h4: "py_index (TileOffsets ex_ifd) (last [0, 1]) = Inr 2"
    and h5: "py_index (TileByteCounts ex_ifd) (last [0, 1]) = Inr 2"
    by (simp_all add: py_index_def ex_ifd_def)
  have h6: "(0::int) \<le> 0" and h7: "(0::int) < 2 + 2" by simp_all
  have h8: "(2::int) + 2 \<le> int (length (file_content ex_fs))"
    by (simp add: ex_fs_def ex_content_def)
  note t = merged_range_covers_row[OF h1 h2 h3 h4 h5 h6 h7 h8]
  show ?thesis
    by (rule conjI[OF h1 conjI[OF h2 conjI[OF h3 conjI[OF h4 conjI[OF h5
          conjI[OF h6 conjI[OF h7 conjI[OF h8 t]]]]]]]])
qed

end
